theory Spec2Isabelle
  imports Complex_Main "HOL-Library.Sublist"
begin

section \<open>Strings and the library functions the utilities call\<close>

text \<open>
  Python strings are modelled as \<^typ>\<open>string\<close>: a list of 8-bit characters, read as the
  code points below 256. \<open>len\<close> is \<^const>\<open>length\<close>, concatenation is \<open>@\<close>.
\<close>

definition is_space :: "char \<Rightarrow> bool" where
  \<comment> \<open>\<open>str.isspace\<close> on the code points below 256\<close>
  "is_space c = ((of_char c :: nat) \<in> {9, 10, 11, 12, 13, 28, 29, 30, 31, 32, 133, 160})"

definition strip_chars :: "(char \<Rightarrow> bool) \<Rightarrow> string \<Rightarrow> string" where
  \<comment> \<open>\<open>s.strip(chars)\<close>: the characters are removed at both ends\<close>
  "strip_chars P s = rev (dropWhile P (rev (dropWhile P s)))"

definition py_strip :: "string \<Rightarrow> string" where
  "py_strip s = strip_chars is_space s"

definition replace_char :: "char \<Rightarrow> char \<Rightarrow> string \<Rightarrow> string" where
  \<comment> \<open>\<open>s.replace(old, new)\<close> for one-character \<open>old\<close> and \<open>new\<close>\<close>
  "replace_char old new s = map (\<lambda>c. if c = old then new else c) s"

definition rfind :: "string \<Rightarrow> char \<Rightarrow> int" where
  \<comment> \<open>\<open>p.rfind(c)\<close>: the last index of \<open>c\<close>, or \<open>-1\<close>\<close>
  "rfind p c =
     (if c \<in> set p then int (length p) - 1 - int (length (takeWhile (\<lambda>x. x \<noteq> c) (rev p)))
      else - 1)"

text \<open>
  \<open>os.path.splitext\<close> (POSIX: separator \<open>/\<close>, no alternative separator), after
  \<open>genericpath._splitext\<close>: the extension starts at the last dot of the last path
  component, unless only dots precede it there.
\<close>

function splitext_loop :: "string \<Rightarrow> nat \<Rightarrow> nat \<Rightarrow> string \<times> string" where
  "splitext_loop p filenameIndex dotIndex =
     (if filenameIndex < dotIndex then
        (if take 1 (drop filenameIndex p) \<noteq> ''.'' then (take dotIndex p, drop dotIndex p)
         else splitext_loop p (Suc filenameIndex) dotIndex)
      else (p, []))"
  by pat_completeness auto
termination
  by (relation "measure (\<lambda>(p, i, d). d - i)") auto

declare splitext_loop.simps [simp del]

definition splitext :: "string \<Rightarrow> string \<times> string" where
  "splitext p =
     (let sepIndex = rfind p CHR ''/'';
          dotIndex = rfind p CHR ''.''
      in if dotIndex > sepIndex then splitext_loop p (nat (sepIndex + 1)) (nat dotIndex)
         else (p, []))"

section \<open>\<open>src/utils/download.py\<close>: file names\<close>

definition invalid_chars :: string where
  \<comment> \<open>the characters \<open>< > : " / \ | ? *\<close>\<close>
  "invalid_chars =
     [CHR ''<'', CHR ''>'', CHR '':'', CHR 0x22, CHR ''/'', CHR 0x5C, CHR ''|'', CHR ''?'', CHR ''*'']"

definition sanitize_filename :: "string \<Rightarrow> string" where
  "sanitize_filename filename0 =
     (let filename1 = fold (\<lambda>char f. replace_char char CHR ''_'' f) invalid_chars filename0;
          filename2 = strip_chars (\<lambda>c. c = CHR ''.'') (py_strip filename1);
          filename3 =
            (if length filename2 > 255 then
               (let (base, ext) = splitext filename2;
                    k = 255 - int (length ext)
                in (if k \<ge> 0 then take (nat k) base else take (length base - nat (- k)) base) @ ext)
             else filename2)
      in if filename3 = [] then ''wallpaper'' else filename3)"

definition get_file_extension_from_url :: "string \<Rightarrow> string" where
  \<comment> \<open>\<open>url.split('?')[0]\<close> is the part before the first question mark\<close>
  "get_file_extension_from_url url = snd (splitext (takeWhile (\<lambda>c. c \<noteq> CHR ''?'') url))"

section \<open>Python values\<close>

text \<open>
  The metadata dictionaries are \<open>Dict[str, Any]\<close>: their values are JSON values. A
  dictionary is an association list with distinct keys, read with \<^const>\<open>map_of\<close>.
\<close>

datatype pyval =
    PNone
  | PBool bool
  | PInt int
  | PStr string
  | PList "pyval list"
  | PDict "(string \<times> pyval) list"

type_synonym pydict = "(string \<times> pyval) list"

fun truthy :: "pyval \<Rightarrow> bool" where
  "truthy PNone = False"
| "truthy (PBool b) = b"
| "truthy (PInt i) = (i \<noteq> 0)"
| "truthy (PStr s) = (s \<noteq> [])"
| "truthy (PList xs) = (xs \<noteq> [])"
| "truthy (PDict kvs) = (kvs \<noteq> [])"

definition py_or :: "pyval \<Rightarrow> pyval \<Rightarrow> pyval" where
  \<comment> \<open>\<open>a or b\<close>\<close>
  "py_or a b = (if truthy a then a else b)"

definition dict_get_default :: "pydict \<Rightarrow> string \<Rightarrow> pyval \<Rightarrow> pyval" where
  \<comment> \<open>\<open>d.get(k, default)\<close>: the default stands in for a missing key only\<close>
  "dict_get_default d k dflt = (case map_of d k of None \<Rightarrow> dflt | Some v \<Rightarrow> v)"

definition dict_get :: "pydict \<Rightarrow> string \<Rightarrow> pyval" where
  \<comment> \<open>\<open>d.get(k)\<close>\<close>
  "dict_get d k = dict_get_default d k PNone"

function digits :: "nat \<Rightarrow> string" where
  "digits n = (if n < 10 then [char_of (48 + n)] else digits (n div 10) @ [char_of (48 + n mod 10)])"
  by pat_completeness auto
termination
  by (relation "measure id") auto

declare digits.simps [simp del]

definition str_int :: "int \<Rightarrow> string" where
  \<comment> \<open>\<open>str(i)\<close> for an integer\<close>
  "str_int i = (if i < 0 then CHR ''-'' # digits (nat (- i)) else digits (nat i))"

datatype exn =
    AttributeError string
  | TypeError string
  | ValueError string
  | OSError string
  | ClientError string
  | TimeoutError string
  | OtherError string

fun exn_str :: "exn \<Rightarrow> string" where
  \<comment> \<open>\<open>str(e)\<close>\<close>
  "exn_str (AttributeError m) = m"
| "exn_str (TypeError m) = m"
| "exn_str (ValueError m) = m"
| "exn_str (OSError m) = m"
| "exn_str (ClientError m) = m"
| "exn_str (TimeoutError m) = m"
| "exn_str (OtherError m) = m"

section \<open>The surroundings: clock, file system, network, log\<close>

record figure =
  data_wallpaper_id :: pyval
    \<comment> \<open>\<open>figure.get('data-wallpaper-id')\<close>\<close>
  wall_res :: "string option"
    \<comment> \<open>the text of the \<open>span.wall-res\<close> element, when there is one\<close>
  img_data_src :: "pyval option"
    \<comment> \<open>\<open>img.get('data-src')\<close> of the \<open>img\<close> element, when there is one\<close>

record response =
  status :: int
  reason :: string
  content_length :: "exn + int"
    \<comment> \<open>\<open>int(response.headers.get('content-length', 0))\<close>, or the exception it raises\<close>
  chunks :: "string list"
    \<comment> \<open>what \<open>response.content.iter_chunked\<close> delivers\<close>
  stream_error :: "exn option"
    \<comment> \<open>the exception that ends the stream after these chunks, if any\<close>
  json_body :: "exn + pyval"
    \<comment> \<open>\<open>await response.json()\<close>, or the exception it raises\<close>
  text_body :: "exn + string"
    \<comment> \<open>\<open>await response.text()\<close>, or the exception it raises\<close>
  figures :: "figure list"
    \<comment> \<open>\<open>BeautifulSoup(html, 'html.parser').select('figure')\<close> for that text\<close>

datatype http_result =
    Response response
  | RequestError exn
    \<comment> \<open>the request raises instead of yielding a response\<close>

record env =
  net :: "nat \<Rightarrow> string \<Rightarrow> http_result"
    \<comment> \<open>the answer to the \<open>n\<close>-th GET of the run, by URL\<close>
  makedirs_error :: "string \<Rightarrow> exn option"
    \<comment> \<open>the exception of \<open>os.makedirs(d, exist_ok=True)\<close>, if it raises\<close>
  open_error :: "string \<Rightarrow> exn option"
    \<comment> \<open>the exception of opening a file for writing, if it raises\<close>
  sleep_lag :: "real \<Rightarrow> real"
    \<comment> \<open>how much longer than asked a sleep started at this time lasts\<close>
  joinpath :: "string \<Rightarrow> string \<Rightarrow> string"
    \<comment> \<open>\<open>pathlib\<close>'s \<open>/\<close> on a directory and a name\<close>
  py_repr :: "pyval \<Rightarrow> string"
    \<comment> \<open>\<open>str\<close> of a list or dictionary\<close>
  json_dumps :: "pyval \<Rightarrow> string"
    \<comment> \<open>\<open>json.dumps\<close> of a parsed JSON value\<close>
  match_resolution :: "string \<Rightarrow> (exn + int \<times> int) option"
    \<comment> \<open>\<open>re.match(r'(\d+)\s*x\s*(\d+)', t)\<close> with both groups through \<open>int\<close>:
        \<open>None\<close> without a match, the exception when \<open>int\<close> raises\<close>

datatype loglevel = INFO | WARNING | ERROR

record world =
  clock :: real
  files :: "string \<rightharpoonup> string"
  dirs :: "string set"
  requests :: "string list"
  logs :: "(loglevel \<times> string) list"

definition logger :: "loglevel \<Rightarrow> string \<Rightarrow> world \<Rightarrow> world" where
  "logger lv msg w = w\<lparr>logs := logs w @ [(lv, msg)]\<rparr>"

definition path_exists :: "world \<Rightarrow> string \<Rightarrow> bool" where
  \<comment> \<open>\<open>Path.exists\<close>: true of a file and of a directory\<close>
  "path_exists w p = (files w p \<noteq> None \<or> p \<in> dirs w)"

definition parents :: "string \<Rightarrow> string list" where
  \<comment> \<open>the proper prefixes of a path that end before a separator\<close>
  "parents p = [take i p. i \<leftarrow> [1..<length p], p ! i = CHR ''/'']"

definition makedirs :: "env \<Rightarrow> string \<Rightarrow> world \<Rightarrow> exn + world" where
  \<comment> \<open>\<open>os.makedirs(d, exist_ok=True)\<close>\<close>
  "makedirs E d w =
     (case makedirs_error E d of
        Some e \<Rightarrow> Inl e
      | None \<Rightarrow> Inr (w\<lparr>dirs := dirs w \<union> set (parents d) \<union> {d}\<rparr>))"

definition http_get :: "env \<Rightarrow> string \<Rightarrow> world \<Rightarrow> http_result \<times> world" where
  \<comment> \<open>every GET is appended to \<open>requests\<close>\<close>
  "http_get E url w = (net E (length (requests w)) url, w\<lparr>requests := requests w @ [url]\<rparr>)"

definition dirname :: "string \<Rightarrow> string" where
  \<comment> \<open>\<open>os.path.dirname\<close> (POSIX)\<close>
  "dirname p =
     (let hd_part = take (nat (rfind p CHR ''/'' + 1)) p
      in if hd_part \<noteq> [] \<and> hd_part \<noteq> replicate (length hd_part) CHR ''/''
         then rev (dropWhile (\<lambda>c. c = CHR ''/'') (rev hd_part)) else hd_part)"

section \<open>\<open>src/utils/download.py\<close>: \<open>download_file\<close>\<close>

definition download_error :: "string \<Rightarrow> int \<Rightarrow> exn \<Rightarrow> string" where
  \<comment> \<open>the three \<open>except\<close> clauses, in their order\<close>
  "download_error url timeout e =
     (case e of
        ClientError m \<Rightarrow> ''Network error downloading '' @ url @ '': '' @ m
      | TimeoutError m \<Rightarrow>
          ''Timeout downloading '' @ url @ '' after '' @ str_int timeout @ '' seconds''
      | _ \<Rightarrow> ''Error downloading '' @ url @ '': '' @ exn_str e)"

definition download_failed ::
  "string \<Rightarrow> int \<Rightarrow> exn \<Rightarrow> world \<Rightarrow> (bool \<times> string option) \<times> world" where
  "download_failed url timeout e w =
     (let error_msg = download_error url timeout e
      in ((False, Some error_msg), logger ERROR error_msg w))"

definition download_file ::
  "env \<Rightarrow> string \<Rightarrow> string \<Rightarrow> int \<Rightarrow> world \<Rightarrow> (bool \<times> string option) \<times> world" where
  "download_file E url destination timeout w =
     (case makedirs E (dirname destination) w of
        Inl e \<Rightarrow> download_failed url timeout e w
      | Inr w1 \<Rightarrow>
         (case http_get E url w1 of
            (RequestError e, w2) \<Rightarrow> download_failed url timeout e w2
          | (Response r, w2) \<Rightarrow>
             if status r \<noteq> 200 then
               ((False, Some (''HTTP error '' @ str_int (status r) @ '': '' @ reason r)), w2)
             else
               (case content_length r of
                  Inl e \<Rightarrow> download_failed url timeout e w2
                | Inr total_size \<Rightarrow>
                   (case open_error E destination of
                      Some e \<Rightarrow> download_failed url timeout e w2
                    | None \<Rightarrow>
                       (let w3 = w2\<lparr>files := (files w2)(destination \<mapsto> concat (chunks r))\<rparr>
                        in case stream_error r of
                             Some e \<Rightarrow> download_failed url timeout e w3
                           | None \<Rightarrow>
                              ((True, None),
                               logger INFO
                                 (''Successfully downloaded '' @ url @ '' to '' @ destination)
                                 w3))))))"

section \<open>\<open>src/scrapers/base_scraper.py\<close>: the scraper object\<close>

record scraper =
  base_url :: string
  download_directory :: string
  rate_limit :: real
  max_concurrent_downloads :: int
  last_request_time :: real
  sem_value :: nat
    \<comment> \<open>the free permits of \<open>self.semaphore\<close>\<close>
  timeout :: int
  api_key :: pyval


definition asyncio_sleep :: "env \<Rightarrow> real \<Rightarrow> world \<Rightarrow> world" where
  \<comment> \<open>the caller resumes no earlier than the delay asked for\<close>
  "asyncio_sleep E delay w = w\<lparr>clock := clock w + delay + sleep_lag E (clock w)\<rparr>"

definition respect_rate_limit :: "env \<Rightarrow> scraper \<Rightarrow> world \<Rightarrow> scraper \<times> world" where
  "respect_rate_limit E s w =
     (let now = clock w;
          time_since_last = now - last_request_time s;
          w1 = (if time_since_last < rate_limit s
                then asyncio_sleep E (rate_limit s - time_since_last) w else w)
      in (s\<lparr>last_request_time := clock w1\<rparr>, w1))"

datatype 'a outcome =
    Returns 'a
  | Raises exn
  | Suspended
    \<comment> \<open>the task waits for a permit; run alone, it waits for ever\<close>

definition with_semaphore ::
  "(scraper \<Rightarrow> world \<Rightarrow> 'a outcome \<times> scraper \<times> world) \<Rightarrow> scraper \<Rightarrow> world
     \<Rightarrow> 'a outcome \<times> scraper \<times> world" where
  \<comment> \<open>\<open>async with self.semaphore:\<close> takes a permit, and gives it back however the body ends\<close>
  "with_semaphore body s w =
     (if sem_value s = 0 then (Suspended, s, w)
      else (let (r, s1, w1) = body (s\<lparr>sem_value := sem_value s - 1\<rparr>) w
            in (r, s1\<lparr>sem_value := sem_value s1 + 1\<rparr>, w1)))"

section \<open>Formatting and attribute access on Python values\<close>

definition quoted :: "string \<Rightarrow> string" where
  "quoted s = CHR 0x27 # s @ [CHR 0x27]"

fun type_name :: "pyval \<Rightarrow> string" where
  "type_name PNone = ''NoneType''"
| "type_name (PBool b) = ''bool''"
| "type_name (PInt i) = ''int''"
| "type_name (PStr s) = ''str''"
| "type_name (PList xs) = ''list''"
| "type_name (PDict kvs) = ''dict''"

definition no_attribute :: "pyval \<Rightarrow> string \<Rightarrow> exn" where
  "no_attribute v a =
     AttributeError (quoted (type_name v) @ '' object has no attribute '' @ quoted a)"

definition py_str :: "env \<Rightarrow> pyval \<Rightarrow> string" where
  \<comment> \<open>\<open>str(v)\<close>, as an f-string formats \<open>{v}\<close>\<close>
  "py_str E v =
     (case v of
        PNone \<Rightarrow> ''None''
      | PBool b \<Rightarrow> (if b then ''True'' else ''False'')
      | PInt i \<Rightarrow> str_int i
      | PStr s \<Rightarrow> s
      | _ \<Rightarrow> py_repr E v)"

definition url_extension :: "pyval \<Rightarrow> exn + string" where
  \<comment> \<open>\<open>get_file_extension_from_url(download_url) or '.jpg'\<close>; only a string has \<open>split\<close>\<close>
  "url_extension download_url =
     (case download_url of
        PStr u \<Rightarrow>
          (let ext = get_file_extension_from_url u in Inr (if ext \<noteq> [] then ext else ''.jpg''))
      | v \<Rightarrow> Inl (no_attribute v ''split''))"

definition path_div :: "env \<Rightarrow> string \<Rightarrow> pyval \<Rightarrow> exn + string" where
  \<comment> \<open>\<open>self.download_directory / category_dir\<close>; only a string joins a path\<close>
  "path_div E d v =
     (case v of
        PStr name \<Rightarrow> Inr (joinpath E d name)
      | _ \<Rightarrow>
          Inl (TypeError (''unsupported operand type(s) for /: '' @ quoted ''PosixPath''
                          @ '' and '' @ quoted (type_name v))))"

definition with_resolution :: "env \<Rightarrow> pydict \<Rightarrow> string \<Rightarrow> string" where
  \<comment> \<open>\<open>if width and height: filename += f"_{width}x{height}"\<close>\<close>
  "with_resolution E wallpaper_data filename =
     (let width = dict_get wallpaper_data ''width'';
          height = dict_get wallpaper_data ''height''
      in if truthy width \<and> truthy height
         then filename @ ''_'' @ py_str E width @ ''x'' @ py_str E height else filename)"

definition download_to ::
  "env \<Rightarrow> string \<Rightarrow> string \<Rightarrow> scraper \<Rightarrow> world \<Rightarrow> string option outcome \<times> scraper \<times> world" where
  \<comment> \<open>the last step of every \<open>download_wallpaper\<close>: \<open>download_file\<close> with its default
      timeout of 60 seconds, success turned into the path and failure into \<open>None\<close>\<close>
  "download_to E download_url output_path s w =
     (case download_file E download_url output_path 60 w of
        ((success, error), w1) \<Rightarrow>
          if success then (Returns (Some output_path), s, w1)
          else (Returns None, s,
                logger ERROR
                  (''Failed to download wallpaper: ''
                   @ (case error of None \<Rightarrow> ''None'' | Some m \<Rightarrow> m)) w1))"

section \<open>\<open>src/scrapers/unsplash_scraper.py\<close>: \<open>download_wallpaper\<close>\<close>

definition unsplash_filename :: "env \<Rightarrow> pydict \<Rightarrow> exn + string" where
  \<comment> \<open>\<open>sanitize_filename(f"{title}_by_{user}" if user else title)\<close>; only a string has
      \<open>replace\<close>\<close>
  "unsplash_filename E wallpaper_data =
     (let title = dict_get_default wallpaper_data ''title'' (PStr ''wallpaper'');
          user = dict_get_default wallpaper_data ''username'' (PStr [])
      in if truthy user
         then Inr (sanitize_filename (py_str E title @ ''_by_'' @ py_str E user))
         else (case title of
                 PStr t \<Rightarrow> Inr (sanitize_filename t)
               | v \<Rightarrow> Inl (no_attribute v ''replace'')))"

definition unsplash_output_dir :: "env \<Rightarrow> scraper \<Rightarrow> pydict \<Rightarrow> exn + string" where
  \<comment> \<open>\<open>self.download_directory / wallpaper_data.get('category', 'unsplash')\<close>\<close>
  "unsplash_output_dir E s wallpaper_data =
     path_div E (download_directory s)
       (dict_get_default wallpaper_data ''category'' (PStr ''unsplash''))"

definition unsplash_register_download :: "env \<Rightarrow> pydict \<Rightarrow> scraper \<Rightarrow> world \<Rightarrow> world" where
  \<comment> \<open>the GET of the API's download endpoint; every exception ends in a warning\<close>
  "unsplash_register_download E wallpaper_data s w =
     (if truthy (dict_get wallpaper_data ''download_url'') \<and> truthy (api_key s) then
        (case dict_get wallpaper_data ''download_url'' of
           PStr u \<Rightarrow>
             (case http_get E u w of
                (RequestError e, w1) \<Rightarrow>
                  logger WARNING
                    (''Failed to register download with Unsplash API: '' @ exn_str e) w1
              | (Response r, w1) \<Rightarrow> w1)
         | v \<Rightarrow>
             logger WARNING
               (''Failed to register download with Unsplash API: ''
                @ ''Constructor parameter should be str'') w)
      else w)"

definition unsplash_download_url :: "pydict \<Rightarrow> pyval" where
  \<comment> \<open>\<open>wallpaper_data.get('regular')\<close>: the "regular" resolution, and no other\<close>
  "unsplash_download_url wallpaper_data = dict_get wallpaper_data ''regular''"

definition unsplash_output_path :: "env \<Rightarrow> scraper \<Rightarrow> pydict \<Rightarrow> exn + string" where
  \<comment> \<open>the destination that \<open>download_wallpaper\<close> computes for a candidate with a URL\<close>
  "unsplash_output_path E s wallpaper_data =
     (case unsplash_filename E wallpaper_data of
        Inl e \<Rightarrow> Inl e
      | Inr filename \<Rightarrow>
         (case url_extension (unsplash_download_url wallpaper_data) of
            Inl e \<Rightarrow> Inl e
          | Inr ext \<Rightarrow>
             (case unsplash_output_dir E s wallpaper_data of
                Inl e \<Rightarrow> Inl e
              | Inr output_dir \<Rightarrow>
                  Inr (joinpath E output_dir (with_resolution E wallpaper_data filename @ ext)))))"

definition unsplash_download_body ::
  "env \<Rightarrow> pydict \<Rightarrow> scraper \<Rightarrow> world \<Rightarrow> string option outcome \<times> scraper \<times> world" where
  "unsplash_download_body E wallpaper_data s w =
     (let (s1, w1) = respect_rate_limit E s w;
          download_url = unsplash_download_url wallpaper_data
      in if \<not> truthy download_url then
           (Returns None, s1, logger ERROR ''No URL available for download'' w1)
         else
           (case unsplash_filename E wallpaper_data of
              Inl e \<Rightarrow> (Raises e, s1, w1)
            | Inr filename \<Rightarrow>
               (case url_extension download_url of
                  Inl e \<Rightarrow> (Raises e, s1, w1)
                | Inr ext \<Rightarrow>
                   (case unsplash_output_dir E s1 wallpaper_data of
                      Inl e \<Rightarrow> (Raises e, s1, w1)
                    | Inr output_dir \<Rightarrow>
                       (case makedirs E output_dir w1 of
                          Inl e \<Rightarrow> (Raises e, s1, w1)
                        | Inr w2 \<Rightarrow>
                           (let output_path =
                                  joinpath E output_dir
                                    (with_resolution E wallpaper_data filename @ ext)
                            in if path_exists w2 output_path then
                                 (Returns (Some output_path), s1,
                                  logger INFO (''Wallpaper already exists: '' @ output_path) w2)
                               else
                                 download_to E (py_str E download_url) output_path s1
                                   (unsplash_register_download E wallpaper_data s1 w2)))))))"

definition unsplash_download_wallpaper ::
  "env \<Rightarrow> pydict \<Rightarrow> scraper \<Rightarrow> world \<Rightarrow> string option outcome \<times> scraper \<times> world" where
  "unsplash_download_wallpaper E wallpaper_data =
     with_semaphore (unsplash_download_body E wallpaper_data)"

section \<open>\<open>src/scrapers/pixabay_scraper.py\<close>: \<open>download_wallpaper\<close>\<close>

definition pixabay_download_url :: "pydict \<Rightarrow> pyval" where
  \<comment> \<open>\<open>wallpaper_data.get('original') or wallpaper_data.get('full') or
      wallpaper_data.get('small')\<close>\<close>
  "pixabay_download_url wallpaper_data =
     py_or (py_or (dict_get wallpaper_data ''original'') (dict_get wallpaper_data ''full''))
       (dict_get wallpaper_data ''small'')"

definition pixabay_filename :: "env \<Rightarrow> pydict \<Rightarrow> string" where
  \<comment> \<open>\<open>sanitize_filename(f"{title}_{image_id}")\<close>\<close>
  "pixabay_filename E wallpaper_data =
     (let title = dict_get_default wallpaper_data ''title'' (PStr ''pixabay'');
          image_id = dict_get_default wallpaper_data ''id'' (PStr [])
      in sanitize_filename (py_str E title @ ''_'' @ py_str E image_id))"

definition pixabay_output_dir :: "env \<Rightarrow> scraper \<Rightarrow> pydict \<Rightarrow> exn + string" where
  \<comment> \<open>\<open>self.download_directory / wallpaper_data.get('category', 'pixabay')\<close>\<close>
  "pixabay_output_dir E s wallpaper_data =
     path_div E (download_directory s)
       (dict_get_default wallpaper_data ''category'' (PStr ''pixabay''))"

definition pixabay_download_body ::
  "env \<Rightarrow> pydict \<Rightarrow> scraper \<Rightarrow> world \<Rightarrow> string option outcome \<times> scraper \<times> world" where
  "pixabay_download_body E wallpaper_data s w =
     (let (s1, w1) = respect_rate_limit E s w;
          download_url = pixabay_download_url wallpaper_data
      in if \<not> truthy download_url then
           (Returns None, s1, logger ERROR ''No URL available for download'' w1)
         else
           (let filename = pixabay_filename E wallpaper_data
            in case url_extension download_url of
                 Inl e \<Rightarrow> (Raises e, s1, w1)
               | Inr ext \<Rightarrow>
                  (case pixabay_output_dir E s1 wallpaper_data of
                     Inl e \<Rightarrow> (Raises e, s1, w1)
                   | Inr output_dir \<Rightarrow>
                      (case makedirs E output_dir w1 of
                         Inl e \<Rightarrow> (Raises e, s1, w1)
                       | Inr w2 \<Rightarrow>
                          (let output_path =
                                 joinpath E output_dir
                                   (with_resolution E wallpaper_data filename @ ext)
                           in if path_exists w2 output_path then
                                (Returns (Some output_path), s1,
                                 logger INFO (''Wallpaper already exists: '' @ output_path) w2)
                              else download_to E (py_str E download_url) output_path s1 w2)))))"

definition pixabay_download_wallpaper ::
  "env \<Rightarrow> pydict \<Rightarrow> scraper \<Rightarrow> world \<Rightarrow> string option outcome \<times> scraper \<times> world" where
  "pixabay_download_wallpaper E wallpaper_data =
     with_semaphore (pixabay_download_body E wallpaper_data)"

section \<open>Sample surroundings for concrete runs\<close>

definition plain_env :: "(nat \<Rightarrow> string \<Rightarrow> http_result) \<Rightarrow> env" where
  \<comment> \<open>a file system without faults, sleeps that end on time, paths joined with a slash\<close>
  "plain_env network =
     \<lparr>net = network, makedirs_error = (\<lambda>d. None), open_error = (\<lambda>p. None),
      sleep_lag = (\<lambda>t. 0), joinpath = (\<lambda>d name. d @ ''/'' @ name), py_repr = (\<lambda>v. []),
      json_dumps = (\<lambda>v. []), match_resolution = (\<lambda>t. None)\<rparr>"

definition plain_response :: "int \<Rightarrow> string \<Rightarrow> string list \<Rightarrow> response" where
  "plain_response st rsn chs =
     \<lparr>status = st, reason = rsn, content_length = Inr 0, chunks = chs, stream_error = None,
      json_body = Inr PNone, text_body = Inr [], figures = []\<rparr>"

definition empty_world :: world where
  "empty_world = \<lparr>clock = 0, files = Map.empty, dirs = {}, requests = [], logs = []\<rparr>"

definition sample_scraper :: scraper where
  \<comment> \<open>a scraper as \<open>__init__\<close> leaves it, with the defaults of the Unsplash scraper\<close>
  "sample_scraper =
     \<lparr>base_url = ''https://api.unsplash.com'', download_directory = ''/w'', rate_limit = 1,
      max_concurrent_downloads = 3, last_request_time = 0, sem_value = 3, timeout = 60,
      api_key = PStr ''key''\<rparr>"

definition sample_wallpaper :: pydict where
  "sample_wallpaper = [(''title'', PStr ''sky''), (''regular'', PStr ''http://img/sky.jpg'')]"

definition image_server :: "nat \<Rightarrow> string \<Rightarrow> http_result" where
  "image_server n url = Response (plain_response 200 ''OK'' [''abc'', ''def''])"

section \<open>Ranked URLs of a candidate\<close>






section \<open>Listing: parsing the entries of a response\<close>

definition bind_exn :: "exn + 'a \<Rightarrow> ('a \<Rightarrow> exn + 'b) \<Rightarrow> exn + 'b" where
  \<comment> \<open>the first exception ends the evaluation\<close>
  "bind_exn m f = (case m of Inl e \<Rightarrow> Inl e | Inr x \<Rightarrow> f x)"

definition attr_get_default :: "pyval \<Rightarrow> string \<Rightarrow> pyval \<Rightarrow> exn + pyval" where
  \<comment> \<open>\<open>v.get(k, default)\<close> on any value: only a dictionary has \<open>get\<close>\<close>
  "attr_get_default v k dflt =
     (case v of PDict d \<Rightarrow> Inr (dict_get_default d k dflt) | _ \<Rightarrow> Inl (no_attribute v ''get''))"

definition attr_get :: "pyval \<Rightarrow> string \<Rightarrow> exn + pyval" where
  "attr_get v k = attr_get_default v k PNone"

definition sub_get :: "pyval \<Rightarrow> string \<Rightarrow> string \<Rightarrow> exn + pyval" where
  \<comment> \<open>\<open>item.get(k1, {}).get(k2)\<close>\<close>
  "sub_get item k1 k2 = bind_exn (attr_get_default item k1 (PDict [])) (\<lambda>sub. attr_get sub k2)"

definition py_iter :: "pyval \<Rightarrow> exn + pyval list" where
  \<comment> \<open>what a \<open>for\<close> loop over the value visits: a dictionary gives its keys, a string its
      characters\<close>
  "py_iter v =
     (case v of
        PList xs \<Rightarrow> Inr xs
      | PDict kvs \<Rightarrow> Inr (map (\<lambda>(k, x). PStr k) kvs)
      | PStr s \<Rightarrow> Inr (map (\<lambda>c. PStr [c]) s)
      | _ \<Rightarrow> Inl (TypeError (quoted (type_name v) @ '' object is not iterable'')))"

fun map_exn :: "('a \<Rightarrow> exn + 'b) \<Rightarrow> 'a list \<Rightarrow> exn + 'b list" where
  \<comment> \<open>a list comprehension whose element expression may raise\<close>
  "map_exn f [] = Inr []"
| "map_exn f (x # xs) =
     (case f x of
        Inl e \<Rightarrow> Inl e
      | Inr y \<Rightarrow> (case map_exn f xs of Inl e \<Rightarrow> Inl e | Inr ys \<Rightarrow> Inr (y # ys)))"

fun parse_loop ::
  "('a \<Rightarrow> (exn + pydict) option) \<Rightarrow> 'a list \<Rightarrow> pydict list \<Rightarrow> world \<Rightarrow> pydict list \<times> world" where
  \<comment> \<open>\<open>for item in results: try: ... wallpapers.append(wallpaper) except Exception as e:
      logger.warning(...)\<close>; \<open>None\<close> is an iteration left by \<open>continue\<close>\<close>
  "parse_loop parse [] wallpapers w = (wallpapers, w)"
| "parse_loop parse (item # results) wallpapers w =
     (case parse item of
        None \<Rightarrow> parse_loop parse results wallpapers w
      | Some (Inr wallpaper) \<Rightarrow> parse_loop parse results (wallpapers @ [wallpaper]) w
      | Some (Inl e) \<Rightarrow>
          parse_loop parse results wallpapers
            (logger WARNING (''Error parsing wallpaper item: '' @ exn_str e) w))"

subsection \<open>\<open>src/scrapers/unsplash_scraper.py\<close>: \<open>get_wallpaper_list\<close>\<close>

definition unsplash_parse_item :: "env \<Rightarrow> string \<Rightarrow> string \<Rightarrow> pyval \<Rightarrow> exn + pydict" where
  \<comment> \<open>the dictionary display inside the \<open>try\<close>, its entries evaluated in order\<close>
  "unsplash_parse_item E query orientation item =
     bind_exn (attr_get item ''id'') (\<lambda>ident.
     bind_exn (attr_get item ''description'') (\<lambda>description.
     bind_exn (attr_get item ''alt_description'') (\<lambda>alt_description.
     bind_exn (sub_get item ''urls'' ''thumb'') (\<lambda>thumb.
     bind_exn (sub_get item ''urls'' ''small'') (\<lambda>small.
     bind_exn (sub_get item ''urls'' ''regular'') (\<lambda>regular.
     bind_exn (sub_get item ''urls'' ''full'') (\<lambda>full.
     bind_exn (sub_get item ''urls'' ''raw'') (\<lambda>raw.
     bind_exn (sub_get item ''links'' ''download'') (\<lambda>download.
     bind_exn (sub_get item ''user'' ''name'') (\<lambda>name.
     bind_exn (sub_get item ''user'' ''username'') (\<lambda>username.
     bind_exn (attr_get item ''width'') (\<lambda>width.
     bind_exn (attr_get item ''height'') (\<lambda>height.
       Inr [(''id'', ident),
            (''title'',
               py_or (py_or description alt_description)
                 (PStr (''unsplash_'' @ py_str E ident))),
            (''thumbnail'', thumb), (''small'', small), (''regular'', regular),
            (''full'', full), (''raw'', raw), (''download_url'', download),
            (''user'', name), (''username'', username),
            (''width'', width), (''height'', height),
            (''category'', py_or (PStr query) (PStr ''unsplash'')),
            (''orientation'', PStr orientation)])))))))))))))"

definition unsplash_results :: "string \<Rightarrow> pyval \<Rightarrow> exn + pyval" where
  \<comment> \<open>\<open>data.get('results', [])\<close> for a search, else \<open>data\<close> if it is a list\<close>
  "unsplash_results endpoint data =
     (if endpoint = ''/search/photos'' then attr_get_default data ''results'' (PList [])
      else Inr (case data of PList xs \<Rightarrow> data | _ \<Rightarrow> PList []))"

definition log_error_details :: "env \<Rightarrow> response \<Rightarrow> world \<Rightarrow> exn + world" where
  \<comment> \<open>the body of a failed listing, logged as JSON if it parses and as text otherwise\<close>
  "log_error_details E r w =
     (case json_body r of
        Inr error_data \<Rightarrow> Inr (logger ERROR (''Error details: '' @ json_dumps E error_data) w)
      | Inl e \<Rightarrow>
          (case text_body r of
             Inr t \<Rightarrow> Inr (logger ERROR (''Error details: '' @ t) w)
           | Inl e' \<Rightarrow> Inl e'))"

definition unsplash_get_wallpaper_list ::
  "env \<Rightarrow> string \<Rightarrow> string \<Rightarrow> scraper \<Rightarrow> world \<Rightarrow> pydict list outcome \<times> scraper \<times> world" where
  "unsplash_get_wallpaper_list E query orientation s w =
     (if \<not> truthy (api_key s) then
        (Returns [], s, logger ERROR ''Cannot fetch wallpapers: No API key provided'' w)
      else
        (let (s1, w1) = respect_rate_limit E s w;
             endpoint = (if query = [] then ''/photos/random'' else ''/search/photos'')
         in case http_get E (base_url s1 @ endpoint) w1 of
              (RequestError e, w2) \<Rightarrow> (Raises e, s1, w2)
            | (Response r, w2) \<Rightarrow>
               if status r \<noteq> 200 then
                 (case log_error_details E r
                         (logger ERROR
                            (''Failed to fetch wallpapers: HTTP '' @ str_int (status r)) w2) of
                    Inl e \<Rightarrow>
                      (Raises e, s1,
                       logger ERROR (''Failed to fetch wallpapers: HTTP '' @ str_int (status r)) w2)
                  | Inr w3 \<Rightarrow> (Returns [], s1, w3))
               else
                 (case bind_exn (json_body r) (\<lambda>data.
                       bind_exn (unsplash_results endpoint data) py_iter) of
                    Inl e \<Rightarrow> (Raises e, s1, w2)
                  | Inr results \<Rightarrow>
                     (let (wallpapers, w3) =
                            parse_loop (\<lambda>item. Some (unsplash_parse_item E query orientation item))
                              results [] w2
                      in (Returns wallpapers, s1, w3)))))"

subsection \<open>\<open>src/scrapers/wallhaven_scraper.py\<close>: \<open>get_wallpaper_list\<close>\<close>

definition wallhaven_parse_item :: "env \<Rightarrow> string \<Rightarrow> pyval \<Rightarrow> exn + pydict" where
  \<comment> \<open>an entry of the API's answer\<close>
  "wallhaven_parse_item E query item =
     bind_exn (attr_get item ''id'') (\<lambda>ident.
     bind_exn (sub_get item ''thumbs'' ''small'') (\<lambda>thumb.
     bind_exn (attr_get item ''url'') (\<lambda>url.
     bind_exn (attr_get item ''path'') (\<lambda>path.
     bind_exn (attr_get item ''dimension_x'') (\<lambda>dimension_x.
     bind_exn (attr_get item ''dimension_y'') (\<lambda>dimension_y.
     bind_exn (attr_get item ''file_size'') (\<lambda>file_size.
     bind_exn (attr_get_default item ''colors'' (PList [])) (\<lambda>colors.
     bind_exn (attr_get_default item ''tags'' (PList [])) (\<lambda>tags.
     bind_exn (py_iter tags) (\<lambda>tag_list.
     bind_exn (map_exn (\<lambda>tag. attr_get tag ''name'') tag_list) (\<lambda>names.
       Inr [(''id'', ident),
            (''title'', PStr (''wallhaven_'' @ py_str E ident)),
            (''thumbnail'', thumb), (''url'', url), (''download_url'', path),
            (''category'', py_or (PStr query) (PStr ''wallhaven'')),
            (''width'', dimension_x), (''height'', dimension_y),
            (''resolution'', PStr (py_str E dimension_x @ ''x'' @ py_str E dimension_y)),
            (''file_size'', file_size), (''colors'', colors),
            (''tags'', PList names)])))))))))))"

definition wallhaven_parse_figure ::
  "env \<Rightarrow> string \<Rightarrow> string \<Rightarrow> figure \<Rightarrow> (exn + pydict) option" where
  \<comment> \<open>a \<open>figure\<close> element of the search page; one without an identifier is passed over
      by \<open>continue\<close>\<close>
  "wallhaven_parse_figure E base query fig =
     (let wallpaper_id = data_wallpaper_id fig
      in if \<not> truthy wallpaper_id then None
         else
           (let resolution_text = (case wall_res fig of Some t \<Rightarrow> py_strip t | None \<Rightarrow> []);
                size = (if resolution_text \<noteq> [] then
                          (case match_resolution E resolution_text of
                             Some m \<Rightarrow> m
                           | None \<Rightarrow> Inr (0, 0))
                        else Inr (0, 0));
                thumb_url = (case img_data_src fig of Some v \<Rightarrow> v | None \<Rightarrow> PStr []);
                detail_url = base @ ''/w/'' @ py_str E wallpaper_id
            in Some (case size of
                       Inl e \<Rightarrow> Inl e
                     | Inr (width, height) \<Rightarrow>
                         Inr [(''id'', wallpaper_id),
                              (''title'', PStr (''wallhaven_'' @ py_str E wallpaper_id)),
                              (''thumbnail'', thumb_url), (''url'', PStr detail_url),
                              (''category'', py_or (PStr query) (PStr ''wallhaven'')),
                              (''width'', PInt width), (''height'', PInt height),
                              (''resolution'', PStr resolution_text)])))"

definition wallhaven_get_wallpaper_list ::
  "env \<Rightarrow> string \<Rightarrow> scraper \<Rightarrow> world \<Rightarrow> pydict list outcome \<times> scraper \<times> world" where
  "wallhaven_get_wallpaper_list E query s w =
     (let (s1, w1) = respect_rate_limit E s w
      in if truthy (api_key s1) then
           (case http_get E (base_url s1 @ ''/api/v1/search'') w1 of
              (RequestError e, w2) \<Rightarrow> (Raises e, s1, w2)
            | (Response r, w2) \<Rightarrow>
               if status r \<noteq> 200 then
                 (Returns [], s1,
                  logger ERROR
                    (''Failed to fetch wallpaper list: HTTP '' @ str_int (status r)) w2)
               else
                 (case bind_exn (json_body r) (\<lambda>data.
                       bind_exn (attr_get_default data ''data'' (PList [])) py_iter) of
                    Inl e \<Rightarrow> (Raises e, s1, w2)
                  | Inr results \<Rightarrow>
                     (let (wallpapers, w3) =
                            parse_loop (\<lambda>item. Some (wallhaven_parse_item E query item))
                              results [] w2
                      in (Returns wallpapers, s1, w3))))
         else
           (case http_get E (base_url s1 @ ''/search'') w1 of
              (RequestError e, w2) \<Rightarrow> (Raises e, s1, w2)
            | (Response r, w2) \<Rightarrow>
               if status r \<noteq> 200 then
                 (Returns [], s1,
                  logger ERROR
                    (''Failed to fetch wallpaper list: HTTP '' @ str_int (status r)) w2)
               else
                 (case text_body r of
                    Inl e \<Rightarrow> (Raises e, s1, w2)
                  | Inr html \<Rightarrow>
                     (let (wallpapers, w3) =
                            parse_loop (wallhaven_parse_figure E (base_url s1) query)
                              (figures r) [] w2
                      in (Returns wallpapers, s1, w3)))))"

definition warnings :: "world \<Rightarrow> string list" where
  \<comment> \<open>the messages logged at level WARNING\<close>
  "warnings w = [m. (lv, m) \<leftarrow> logs w, lv = WARNING]"

definition candidates_of :: "('a \<Rightarrow> (exn + pydict) option) \<Rightarrow> 'a list \<Rightarrow> pydict list" where
  \<comment> \<open>the candidates of the entries that parse, in the order of the entries\<close>
  "candidates_of parse items =
     List.map_filter (\<lambda>item. case parse item of Some (Inr wp) \<Rightarrow> Some wp | _ \<Rightarrow> None) items"

definition parse_errors :: "('a \<Rightarrow> (exn + pydict) option) \<Rightarrow> 'a list \<Rightarrow> exn list" where
  \<comment> \<open>the exceptions of the entries that do not parse, in the order of the entries\<close>
  "parse_errors parse items =
     List.map_filter (\<lambda>item. case parse item of Some (Inl e) \<Rightarrow> Some e | _ \<Rightarrow> None) items"

fun is_dict :: "pyval \<Rightarrow> bool" where
  "is_dict (PDict d) = True"
| "is_dict v = False"

definition unsplash_malformed :: "pyval \<Rightarrow> bool" where
  \<comment> \<open>an entry that is no JSON object, or whose \<open>urls\<close>, \<open>links\<close> or \<open>user\<close> is present
      and is no JSON object\<close>
  "unsplash_malformed item =
     (case item of
        PDict d \<Rightarrow>
          list_ex (\<lambda>k. case map_of d k of Some v \<Rightarrow> \<not> is_dict v | None \<Rightarrow> False)
            [''urls'', ''links'', ''user'']
      | _ \<Rightarrow> True)"

definition unsplash_item :: "string \<Rightarrow> pyval" where
  \<comment> \<open>a well-formed entry of a search answer\<close>
  "unsplash_item ident =
     PDict [(''id'', PStr ident), (''description'', PStr ''sky''),
            (''urls'', PDict [(''regular'', PStr (''http://img/'' @ ident @ ''.jpg''))]),
            (''links'', PDict []), (''user'', PDict [(''username'', PStr ''ann'')]),
            (''width'', PInt 1920), (''height'', PInt 1080)]"

definition unsplash_page :: "pyval list" where
  \<comment> \<open>five well-formed entries and one whose \<open>urls\<close> is \<open>null\<close>\<close>
  "unsplash_page =
     [unsplash_item ''a'', unsplash_item ''b'',
      PDict [(''id'', PStr ''x''), (''urls'', PNone)],
      unsplash_item ''c'', unsplash_item ''d'', unsplash_item ''e'']"

definition search_server :: "nat \<Rightarrow> string \<Rightarrow> http_result" where
  "search_server n url =
     Response ((plain_response 200 ''OK'' [])
                 \<lparr>json_body := Inr (PDict [(''total'', PInt 6), (''results'', PList unsplash_page)])\<rparr>)"

definition wallhaven_figure :: "string \<Rightarrow> figure" where
  \<comment> \<open>a thumbnail of the search page, with identifier, resolution and image\<close>
  "wallhaven_figure ident =
     \<lparr>data_wallpaper_id = PStr ident, wall_res = Some ''1920 x 1080'',
      img_data_src = Some (PStr (''http://th/'' @ ident @ ''.jpg''))\<rparr>"

definition wallhaven_page :: "figure list" where
  \<comment> \<open>five thumbnails and one \<open>figure\<close> without an identifier\<close>
  "wallhaven_page =
     [wallhaven_figure ''a'', wallhaven_figure ''b'',
      \<lparr>data_wallpaper_id = PNone, wall_res = None, img_data_src = None\<rparr>,
      wallhaven_figure ''c'', wallhaven_figure ''d'', wallhaven_figure ''e'']"

definition page_server :: "nat \<Rightarrow> string \<Rightarrow> http_result" where
  "page_server n url = Response ((plain_response 200 ''OK'' [])\<lparr>figures := wallhaven_page\<rparr>)"

definition returned :: "'a list outcome \<Rightarrow> 'a list option" where
  "returned r = (case r of Returns xs \<Rightarrow> Some xs | _ \<Rightarrow> None)"

definition wallhaven_scraper :: scraper where
  \<comment> \<open>a Wallhaven scraper without an API key, as \<open>__init__\<close> leaves it\<close>
  "wallhaven_scraper =
     \<lparr>base_url = ''https://wallhaven.cc'', download_directory = ''/w'', rate_limit = 2,
      max_concurrent_downloads = 2, last_request_time = 0, sem_value = 2, timeout = 60,
      api_key = PStr []\<rparr>"

definition page_env :: env where
  \<comment> \<open>the search page above, and a resolution pattern that knows \<open>1920 x 1080\<close>\<close>
  "page_env =
     (plain_env page_server)
       \<lparr>match_resolution :=
          (\<lambda>t. if t = ''1920 x 1080'' then Some (Inr (1920, 1080)) else None)\<rparr>"


section \<open>\<open>src/scrapers/base_scraper.py\<close>: \<open>download_all\<close>\<close>

text \<open>
  \<open>get_wallpaper_list\<close> and \<open>download_wallpaper\<close> are abstract in the base class, so
  \<open>download_all\<close> takes them as arguments. \<open>asyncio.gather\<close> hands back one result per
  task in the order of submission; the tasks are run here one after the other in that
  order. With \<open>return_exceptions=True\<close> a raised exception is a result like any other. A
  task that never ends keeps \<open>gather\<close> from ending.
\<close>

fun gather ::
  "('a \<Rightarrow> scraper \<Rightarrow> world \<Rightarrow> 'b outcome \<times> scraper \<times> world) \<Rightarrow> 'a list \<Rightarrow> scraper \<Rightarrow> world
     \<Rightarrow> 'b outcome list option \<times> scraper \<times> world" where
  "gather f [] s w = (Some [], s, w)"
| "gather f (x # xs) s w =
     (case f x s w of
        (Suspended, s1, w1) \<Rightarrow> (None, s1, w1)
      | (r, s1, w1) \<Rightarrow>
          (case gather f xs s1 w1 of
             (None, s2, w2) \<Rightarrow> (None, s2, w2)
           | (Some rs, s2, w2) \<Rightarrow> (Some (r # rs), s2, w2)))"

definition successful_downloads :: "string option outcome list \<Rightarrow> string list" where
  \<comment> \<open>\<open>[r for r in results if isinstance(r, Path)]\<close>\<close>
  "successful_downloads results =
     List.map_filter (\<lambda>r. case r of Returns (Some p) \<Rightarrow> Some p | _ \<Rightarrow> None) results"

definition download_all ::
  "(scraper \<Rightarrow> world \<Rightarrow> pydict list outcome \<times> scraper \<times> world)
     \<Rightarrow> (pydict \<Rightarrow> scraper \<Rightarrow> world \<Rightarrow> string option outcome \<times> scraper \<times> world)
     \<Rightarrow> scraper \<Rightarrow> world \<Rightarrow> string list outcome \<times> scraper \<times> world" where
  "download_all get_wallpaper_list download_wallpaper s w =
     (case get_wallpaper_list s w of
        (Raises e, s1, w1) \<Rightarrow> (Raises e, s1, w1)
      | (Suspended, s1, w1) \<Rightarrow> (Suspended, s1, w1)
      | (Returns wallpapers, s1, w1) \<Rightarrow>
          (case gather download_wallpaper wallpapers s1 w1 of
             (None, s2, w2) \<Rightarrow> (Suspended, s2, w2)
           | (Some results, s2, w2) \<Rightarrow> (Returns (successful_downloads results), s2, w2)))"

section \<open>\<open>main.py\<close>: the page loop\<close>

definition py_take :: "int \<Rightarrow> 'a list \<Rightarrow> 'a list" where
  \<comment> \<open>the slice \<open>xs[:k]\<close>; a negative \<open>k\<close> counts from the end\<close>
  "py_take k xs = (if k \<ge> 0 then take (nat k) xs else take (length xs - nat (- k)) xs)"

record args =
  arg_query :: pyval
  arg_category :: pyval
  arg_limit :: pyval
    \<comment> \<open>\<open>--limit\<close>: an integer, or \<open>None\<close> when it is not given\<close>
  arg_pages :: int
  arg_orientation :: string
  arg_resolution :: pyval

definition listing_kwargs :: "args \<Rightarrow> int \<Rightarrow> pydict" where
  \<comment> \<open>the keyword arguments of the loop's call of \<open>get_wallpaper_list\<close>\<close>
  "listing_kwargs a page =
     [(''query'', py_or (arg_query a) (PStr [])), (''category'', py_or (arg_category a) (PStr [])),
      (''page'', PInt page), (''orientation'', PStr (arg_orientation a)),
      (''resolution'', arg_resolution a)]"

definition over_limit :: "pyval \<Rightarrow> nat \<Rightarrow> bool" where
  \<comment> \<open>\<open>args.limit and len(all_wallpapers) > args.limit\<close>\<close>
  "over_limit limit n = (case limit of PInt l \<Rightarrow> l \<noteq> 0 \<and> int n > l | _ \<Rightarrow> False)"

definition limit_slice :: "pyval \<Rightarrow> 'a list \<Rightarrow> 'a list" where
  \<comment> \<open>\<open>all_wallpapers[:args.limit]\<close>\<close>
  "limit_slice limit xs = (case limit of PInt l \<Rightarrow> py_take l xs | _ \<Rightarrow> xs)"

fun page_loop ::
  "(pydict \<Rightarrow> scraper \<Rightarrow> world \<Rightarrow> pydict list outcome \<times> scraper \<times> world)
     \<Rightarrow> (pydict \<Rightarrow> scraper \<Rightarrow> world \<Rightarrow> string option outcome \<times> scraper \<times> world)
     \<Rightarrow> args \<Rightarrow> int list \<Rightarrow> pydict list \<Rightarrow> string list \<Rightarrow> scraper \<Rightarrow> world
     \<Rightarrow> (pydict list \<times> string list) outcome \<times> scraper \<times> world" where
  \<comment> \<open>the \<open>for page in range(1, args.pages + 1)\<close> loop; \<open>get_wallpaper_list\<close> takes its
      keyword arguments, and \<open>download_all()\<close> is called without any\<close>
  "page_loop get_wallpaper_list download_wallpaper a [] all_wallpapers total_downloaded s w =
     (Returns (all_wallpapers, total_downloaded), s, w)"
| "page_loop get_wallpaper_list download_wallpaper a (page # pages) all_wallpapers
     total_downloaded s w =
     (let w0 = (if page > 1
                then logger INFO (''Fetching page '' @ str_int page @ '' of ''
                                  @ str_int (arg_pages a)) w
                else w)
      in case get_wallpaper_list (listing_kwargs a page) s w0 of
           (Raises e, s1, w1) \<Rightarrow> (Raises e, s1, w1)
         | (Suspended, s1, w1) \<Rightarrow> (Suspended, s1, w1)
         | (Returns wallpapers, s1, w1) \<Rightarrow>
            (let all1 = all_wallpapers @ wallpapers
             in if over_limit (arg_limit a) (length all1) then
                  (Returns (limit_slice (arg_limit a) all1, total_downloaded), s1, w1)
                else
                  (let w2 = logger INFO
                              (''Found '' @ str_int (int (length wallpapers))
                               @ '' wallpapers on page '' @ str_int page) w1
                   in if wallpapers \<noteq> [] then
                        (case download_all (get_wallpaper_list []) download_wallpaper s1 w2 of
                           (Raises e, s2, w3) \<Rightarrow> (Raises e, s2, w3)
                         | (Suspended, s2, w3) \<Rightarrow> (Suspended, s2, w3)
                         | (Returns downloaded, s2, w3) \<Rightarrow>
                             page_loop get_wallpaper_list download_wallpaper a pages all1
                               (total_downloaded @ downloaded) s2 w3)
                      else
                        page_loop get_wallpaper_list download_wallpaper a pages all1
                          total_downloaded s1 w2)))"

definition main_run ::
  "(pydict \<Rightarrow> scraper \<Rightarrow> world \<Rightarrow> pydict list outcome \<times> scraper \<times> world)
     \<Rightarrow> (pydict \<Rightarrow> scraper \<Rightarrow> world \<Rightarrow> string option outcome \<times> scraper \<times> world)
     \<Rightarrow> args \<Rightarrow> scraper \<Rightarrow> world \<Rightarrow> (int \<times> string list) outcome \<times> scraper \<times> world" where
  \<comment> \<open>the \<open>try\<close> block of \<open>main\<close>, for a scraper that is already set up: the exit code and
      the paths counted as downloaded\<close>
  "main_run get_wallpaper_list download_wallpaper a s w =
     (case page_loop get_wallpaper_list download_wallpaper a [1..arg_pages a] [] [] s w of
        (Returns (all_wallpapers, total_downloaded), s1, w1) \<Rightarrow>
          (Returns (0, total_downloaded), s1,
           logger INFO (''Successfully downloaded ''
                        @ str_int (int (length total_downloaded)) @ '' wallpapers'') w1)
      | (Raises e, s1, w1) \<Rightarrow> (Returns (1, []), s1, logger ERROR (''Error: '' @ exn_str e) w1)
      | (Suspended, s1, w1) \<Rightarrow> (Suspended, s1, w1))"

definition site_listing :: "pydict \<Rightarrow> scraper \<Rightarrow> world \<Rightarrow> pydict list outcome \<times> scraper \<times> world" where
  \<comment> \<open>a site with one match for a query and three wallpapers on its front page\<close>
  "site_listing kwargs s w =
     (Returns (if truthy (dict_get kwargs ''query'')
               then [[(''id'', PStr ''m'')]]
               else [[(''id'', PStr ''a'')], [(''id'', PStr ''b'')], [(''id'', PStr ''c'')]]),
      s, w)"

definition site_download ::
  "pydict \<Rightarrow> scraper \<Rightarrow> world \<Rightarrow> string option outcome \<times> scraper \<times> world" where
  \<comment> \<open>every download of that site succeeds\<close>
  "site_download wallpaper_data s w =
     (case dict_get wallpaper_data ''id'' of
        PStr i \<Rightarrow> (Returns (Some (''/w/'' @ i @ ''.jpg'')), s, w)
      | _ \<Rightarrow> (Returns None, s, w))"

definition limit_two :: args where
  \<comment> \<open>\<open>--query rare --limit 2\<close>, the other options at their defaults\<close>
  "limit_two =
     \<lparr>arg_query = PStr ''rare'', arg_category = PNone, arg_limit = PInt 2, arg_pages = 1,
      arg_orientation = ''landscape'', arg_resolution = PNone\<rparr>"


section \<open>Concurrent tasks on one scraper\<close>

text \<open>
  \<open>asyncio\<close> runs the tasks of \<open>gather\<close> on one thread and switches between them at an
  \<open>await\<close> only. A run is given by its schedule: the list of the steps that the event loop
  takes, each step being the code of one task between two \<open>await\<close>s. A step that is not
  enabled makes the schedule impossible (\<open>None\<close>).
\<close>

subsection \<open>The permits of \<open>download_wallpaper\<close>\<close>









subsection \<open>The rate limiter under concurrent callers\<close>

datatype limiter_task =
    Idle
    \<comment> \<open>\<open>_respect_rate_limit\<close> is not called yet\<close>
  | Sleeping real
    \<comment> \<open>inside \<open>await asyncio.sleep\<close>, until this time at the earliest\<close>
  | Dispatched real
    \<comment> \<open>returned at this time, which it recorded as \<open>last_request_time\<close>\<close>

record limiter =
  loop_time :: real
  last_time :: real
    \<comment> \<open>\<open>self.last_request_time\<close>\<close>
  interval :: real
    \<comment> \<open>\<open>self.rate_limit\<close>\<close>
  callers :: "limiter_task list"

datatype limiter_event =
    Call nat
    \<comment> \<open>task \<open>i\<close> runs from the call up to the \<open>await\<close>, or to the end if it need not sleep\<close>
  | Wake nat
    \<comment> \<open>task \<open>i\<close> runs from the end of its sleep to the end\<close>
  | Tick real
    \<comment> \<open>time passes\<close>

definition init_limiter :: "scraper \<Rightarrow> real \<Rightarrow> nat \<Rightarrow> limiter" where
  \<comment> \<open>\<open>n\<close> tasks about to call \<open>_respect_rate_limit\<close> on a scraper, at this time\<close>
  "init_limiter s t n =
     \<lparr>loop_time = t, last_time = last_request_time s, interval = rate_limit s,
      callers = replicate n Idle\<rparr>"

fun limiter_step :: "limiter_event \<Rightarrow> limiter \<Rightarrow> limiter option" where
  "limiter_step (Call i) l =
     (if i < length (callers l) \<and> callers l ! i = Idle then
        (let now = loop_time l;
             time_since_last = now - last_time l
         in if time_since_last < interval l
            then Some (l\<lparr>callers := (callers l)[i := Sleeping (now + (interval l - time_since_last))]\<rparr>)
            else Some (l\<lparr>last_time := loop_time l,
                         callers := (callers l)[i := Dispatched (loop_time l)]\<rparr>))
      else None)"
| "limiter_step (Wake i) l =
     (if i < length (callers l) then
        (case callers l ! i of
           Sleeping t \<Rightarrow>
             if t \<le> loop_time l
             then Some (l\<lparr>last_time := loop_time l,
                          callers := (callers l)[i := Dispatched (loop_time l)]\<rparr>)
             else None
         | _ \<Rightarrow> None)
      else None)"
| "limiter_step (Tick d) l = (if 0 \<le> d then Some (l\<lparr>loop_time := loop_time l + d\<rparr>) else None)"

fun limiter_run :: "limiter_event list \<Rightarrow> limiter \<Rightarrow> limiter option" where
  "limiter_run [] l = Some l"
| "limiter_run (e # es) l =
     (case limiter_step e l of None \<Rightarrow> None | Some l1 \<Rightarrow> limiter_run es l1)"

definition three_downloads :: "limiter_event list" where
  \<comment> \<open>three downloads started together by \<open>gather\<close>: each calls the limiter before any of
      them wakes, one second passes, the two sleepers wake\<close>
  "three_downloads = [Call 0, Call 1, Call 2, Tick 1, Wake 1, Wake 2]"



section \<open>Verified properties\<close>

subsection \<open>Shared lemmas\<close>

lemma respect_rate_limit_world:
  "respect_rate_limit E s w = (s1, w1) \<Longrightarrow>
     files w1 = files w \<and> dirs w1 = dirs w \<and> requests w1 = requests w \<and> logs w1 = logs w
     \<and> download_directory s1 = download_directory s \<and> sem_value s1 = sem_value s
     \<and> api_key s1 = api_key s \<and> rate_limit s1 = rate_limit s"
  by (auto simp: respect_rate_limit_def Let_def asyncio_sleep_def split: if_splits)

lemma respect_rate_limit_shape:
  "\<exists>t. respect_rate_limit E s w = (s\<lparr>last_request_time := t\<rparr>, w\<lparr>clock := t\<rparr>)"
  by (auto simp: respect_rate_limit_def Let_def asyncio_sleep_def)

lemma download_file_success:
  "download_file E url p tmo w = ((True, err), w') \<Longrightarrow> files w' p \<noteq> None \<and> dirs w \<subseteq> dirs w'"
  by (auto simp: download_file_def download_failed_def makedirs_def http_get_def logger_def Let_def
        split: sum.splits option.splits http_result.splits if_splits prod.splits)

lemma download_to_Some:
  "download_to E url p s w = (Returns (Some q), s', w') \<Longrightarrow>
     q = p \<and> s' = s \<and> files w' p \<noteq> None"
  by (auto simp: download_to_def logger_def split: prod.splits if_splits dest: download_file_success)


subsection \<open>The rate limiter, one caller at a time\<close>



subsection \<open>The permits of concurrent downloads\<close>









subsection \<open>An existing destination is not fetched again\<close>

lemma unsplash_body_existing:
  assumes "truthy (unsplash_download_url wd)"
      and "unsplash_output_dir E s wd = Inr d"
      and "makedirs_error E d = None"
      and "unsplash_output_path E s wd = Inr p"
      and "path_exists w p"
  shows "\<exists>s' w'. unsplash_download_body E wd s w = (Returns (Some p), s', w')
           \<and> requests w' = requests w \<and> files w' = files w \<and> sem_value s' = sem_value s
           \<and> download_directory s' = download_directory s"
proof -
  obtain s1 w1 where r: "respect_rate_limit E s w = (s1, w1)" by fastforce
  note k = respect_rate_limit_world [OF r]
  have d1: "unsplash_output_dir E s1 wd = Inr d"
    using assms(2) k by (simp add: unsplash_output_dir_def)
  have ex: "path_exists (w1\<lparr>dirs := dirs w1 \<union> set (parents d) \<union> {d}\<rparr>) p"
    using assms(5) k by (auto simp: path_exists_def)
  show ?thesis
    using assms(1,3,4) d1 ex k assms(2)
    by (auto simp: unsplash_download_body_def r unsplash_output_path_def makedirs_def logger_def
          split: sum.splits)
qed

lemma unsplash_register_download_fs:
  "files (unsplash_register_download E wd s w) = files w
   \<and> dirs (unsplash_register_download E wd s w) = dirs w"
  by (auto simp: unsplash_register_download_def http_get_def logger_def
        split: pyval.splits prod.splits http_result.splits)

lemma unsplash_body_Some:
  assumes "unsplash_download_body E wd s w = (Returns (Some p), s', w')"
  shows "truthy (unsplash_download_url wd)
         \<and> (\<exists>d. unsplash_output_dir E s wd = Inr d \<and> makedirs_error E d = None)
         \<and> unsplash_output_path E s wd = Inr p
         \<and> path_exists w' p
         \<and> download_directory s' = download_directory s \<and> sem_value s' = sem_value s"
proof -
  obtain s1 w1 where r: "respect_rate_limit E s w = (s1, w1)" by fastforce
  note k = respect_rate_limit_world [OF r]
  have od: "unsplash_output_dir E s1 wd = unsplash_output_dir E s wd"
    using k by (simp add: unsplash_output_dir_def)
  show ?thesis
    using assms k
    by (auto simp: unsplash_download_body_def r od unsplash_output_path_def makedirs_def
          logger_def path_exists_def unsplash_register_download_fs Let_def
          split: sum.splits if_splits option.splits dest!: download_to_Some)
qed

lemma unsplash_wallpaper_existing:
  assumes "0 < sem_value s"
      and "truthy (unsplash_download_url wd)"
      and "unsplash_output_dir E s wd = Inr d"
      and "makedirs_error E d = None"
      and "unsplash_output_path E s wd = Inr p"
      and "path_exists w p"
  shows "\<exists>s' w'. unsplash_download_wallpaper E wd s w = (Returns (Some p), s', w')
           \<and> requests w' = requests w \<and> files w' = files w"
proof -
  let ?s = "s\<lparr>sem_value := sem_value s - 1\<rparr>"
  have d: "unsplash_output_dir E ?s wd = Inr d"
    using assms(3) by (simp add: unsplash_output_dir_def)
  have "unsplash_output_path E ?s wd = unsplash_output_path E s wd"
    unfolding unsplash_output_path_def d assms(3) by (rule refl)
  with assms(5) have p: "unsplash_output_path E ?s wd = Inr p" by simp
  from unsplash_body_existing [OF assms(2) d assms(4) p assms(6)] assms(1)
  show ?thesis
    by (auto simp: unsplash_download_wallpaper_def with_semaphore_def)
qed

lemma unsplash_wallpaper_twice:
  assumes "unsplash_download_wallpaper E wd s w = (Returns (Some p), s1, w1)"
  shows "\<exists>s2 w2. unsplash_download_wallpaper E wd s1 w1 = (Returns (Some p), s2, w2)
           \<and> requests w2 = requests w1"
proof -
  let ?s = "s\<lparr>sem_value := sem_value s - 1\<rparr>"
  from assms have pos: "0 < sem_value s"
    by (auto simp: unsplash_download_wallpaper_def with_semaphore_def split: if_splits)
  with assms obtain sb where
    b: "unsplash_download_body E wd ?s w = (Returns (Some p), sb, w1)"
    and s1: "s1 = sb\<lparr>sem_value := sem_value sb + 1\<rparr>"
    by (auto simp: unsplash_download_wallpaper_def with_semaphore_def split: prod.splits)
  from unsplash_body_Some [OF b] obtain d where
    t: "truthy (unsplash_download_url wd)" and d: "unsplash_output_dir E ?s wd = Inr d"
    and m: "makedirs_error E d = None" and p: "unsplash_output_path E ?s wd = Inr p"
    and e: "path_exists w1 p" and dd: "download_directory sb = download_directory ?s"
    by blast
  have d1: "unsplash_output_dir E s1 wd = Inr d"
    using d dd s1 by (simp add: unsplash_output_dir_def)
  have "unsplash_output_path E s1 wd = unsplash_output_path E ?s wd"
    unfolding unsplash_output_path_def d d1 by (rule refl)
  with p have p1: "unsplash_output_path E s1 wd = Inr p" by simp
  have pos1: "0 < sem_value s1" using s1 by simp
  from unsplash_wallpaper_existing [OF pos1 t d1 m p1 e] show ?thesis by blast
qed

text \<open>
  Claim C3: when the destination that the download step computes for a candidate already
  exists, the step returns that path and sends no request; so a second call for the same
  candidate, after a first one that returned the path, succeeds without a second fetch.
  The step here is Unsplash's \<open>download_wallpaper\<close>, with a free permit and a directory
  that \<open>os.makedirs\<close> accepts.
\<close>

theorem unsplash_existing_file_no_fetch:
  "(0 < sem_value s \<and> truthy (unsplash_download_url wd) \<and> unsplash_output_dir E s wd = Inr d
      \<and> makedirs_error E d = None \<and> unsplash_output_path E s wd = Inr p \<and> path_exists w p
    \<longrightarrow> (\<exists>s' w'. unsplash_download_wallpaper E wd s w = (Returns (Some p), s', w')
           \<and> requests w' = requests w \<and> files w' = files w))
   \<and> (unsplash_download_wallpaper E wd s w = (Returns (Some p), s1, w1)
    \<longrightarrow> (\<exists>s2 w2. unsplash_download_wallpaper E wd s1 w1 = (Returns (Some p), s2, w2)
           \<and> requests w2 = requests w1))"
  using unsplash_wallpaper_existing [of s wd E d p w] unsplash_wallpaper_twice [of E wd s w p s1 w1]
  by blast

theorem unsplash_existing_file_no_fetch_witness:
  "fst (unsplash_download_wallpaper (plain_env image_server) sample_wallpaper sample_scraper
          empty_world) = Returns (Some ''/w/unsplash/sky.jpg'')
   \<and> requests (snd (snd (unsplash_download_wallpaper (plain_env image_server) sample_wallpaper
          sample_scraper empty_world))) = [''http://img/sky.jpg'']
   \<and> (\<exists>s2 w2. unsplash_download_wallpaper (plain_env image_server) sample_wallpaper
          (fst (snd (unsplash_download_wallpaper (plain_env image_server) sample_wallpaper
             sample_scraper empty_world)))
          (snd (snd (unsplash_download_wallpaper (plain_env image_server) sample_wallpaper
             sample_scraper empty_world)))
        = (Returns (Some ''/w/unsplash/sky.jpg''), s2, w2)
        \<and> requests w2 = [''http://img/sky.jpg''])
   \<and> 0 < sem_value sample_scraper \<and> truthy (unsplash_download_url sample_wallpaper)
   \<and> unsplash_output_dir (plain_env image_server) sample_scraper sample_wallpaper
        = Inr ''/w/unsplash''
   \<and> makedirs_error (plain_env image_server) ''/w/unsplash'' = None
   \<and> unsplash_output_path (plain_env image_server) sample_scraper sample_wallpaper
        = Inr ''/w/unsplash/sky.jpg''
   \<and> path_exists (empty_world\<lparr>files := [''/w/unsplash/sky.jpg'' \<mapsto> ''old'']\<rparr>)
        ''/w/unsplash/sky.jpg''
   \<and> (\<exists>s' w'. unsplash_download_wallpaper (plain_env image_server) sample_wallpaper
          sample_scraper (empty_world\<lparr>files := [''/w/unsplash/sky.jpg'' \<mapsto> ''old'']\<rparr>)
        = (Returns (Some ''/w/unsplash/sky.jpg''), s', w')
        \<and> requests w' = [] \<and> files w' = [''/w/unsplash/sky.jpg'' \<mapsto> ''old''])"
proof -
  let ?E = "plain_env image_server"
  let ?run = "unsplash_download_wallpaper ?E sample_wallpaper sample_scraper empty_world"
  let ?w = "empty_world\<lparr>files := [''/w/unsplash/sky.jpg'' \<mapsto> ''old'']\<rparr>"
  have r1: "fst ?run = Returns (Some ''/w/unsplash/sky.jpg'')"
    by code_simp
  have r2: "requests (snd (snd ?run)) = [''http://img/sky.jpg'']"
    by code_simp
  have run: "?run = (Returns (Some ''/w/unsplash/sky.jpg''), fst (snd ?run), snd (snd ?run))"
    using r1 by (metis prod.collapse)
  have h1: "0 < sem_value sample_scraper" by (simp add: sample_scraper_def)
  have h2: "truthy (unsplash_download_url sample_wallpaper)" by code_simp
  have h3: "unsplash_output_dir ?E sample_scraper sample_wallpaper = Inr ''/w/unsplash''"
    by code_simp
  have h4: "makedirs_error ?E ''/w/unsplash'' = None" by (simp add: plain_env_def)
  have h5: "unsplash_output_path ?E sample_scraper sample_wallpaper = Inr ''/w/unsplash/sky.jpg''"
    by code_simp
  have h6: "path_exists ?w ''/w/unsplash/sky.jpg''" by (simp add: path_exists_def)
  have rq: "requests ?w = []" "files ?w = [''/w/unsplash/sky.jpg'' \<mapsto> ''old'']"
    by (simp_all add: empty_world_def)
  from unsplash_existing_file_no_fetch
         [of sample_scraper sample_wallpaper ?E "''/w/unsplash''" "''/w/unsplash/sky.jpg''" ?w]
       h1 h2 h3 h4 h5 h6 rq
  have first: "\<exists>s' w'. unsplash_download_wallpaper ?E sample_wallpaper sample_scraper ?w
        = (Returns (Some ''/w/unsplash/sky.jpg''), s', w')
        \<and> requests w' = [] \<and> files w' = [''/w/unsplash/sky.jpg'' \<mapsto> ''old'']"
    by auto
  from unsplash_existing_file_no_fetch
         [where E = "?E" and wd = sample_wallpaper and s = sample_scraper and w = empty_world
            and p = "''/w/unsplash/sky.jpg''" and ?s1.0 = "fst (snd ?run)"
            and ?w1.0 = "snd (snd ?run)"] run r2
  have second: "\<exists>s2 w2. unsplash_download_wallpaper ?E sample_wallpaper (fst (snd ?run)) (snd (snd ?run))
        = (Returns (Some ''/w/unsplash/sky.jpg''), s2, w2)
        \<and> requests w2 = [''http://img/sky.jpg'']"
    by auto
  from r1 r2 second h1 h2 h3 h4 h5 h6 first show ?thesis by blast
qed

subsection \<open>A status other than success\<close>

text \<open>
  Claim C4: when the request is answered with a status outside 200..299, \<open>download_file\<close>
  returns failure with a message that contains the status code, and the files on disk are
  what they were, so nothing is created at the destination.
\<close>

theorem download_file_non_2xx:
  assumes "makedirs_error E (dirname destination) = None"
      and "net E (length (requests w)) url = Response r"
      and "status r < 200 \<or> 300 \<le> status r"
  shows "\<exists>msg w'. download_file E url destination tmo w = ((False, Some msg), w')
           \<and> sublist (str_int (status r)) msg
           \<and> files w' = files w"
  using assms
  by (auto simp: download_file_def makedirs_def http_get_def sublist_Cons_right sublist_append_rightI)

theorem download_file_non_2xx_witness:
  "makedirs_error (plain_env (\<lambda>n u. Response (plain_response 404 ''Not Found'' []))) (dirname ''/tmp/w/a.jpg'') = None
   \<and> net (plain_env (\<lambda>n u. Response (plain_response 404 ''Not Found'' []))) (length (requests empty_world)) ''http://x/a.jpg''
       = Response (plain_response 404 ''Not Found'' [])
   \<and> (status (plain_response 404 ''Not Found'' []) < 200 \<or> 300 \<le> status (plain_response 404 ''Not Found'' []))
   \<and> (\<exists>msg w'. download_file (plain_env (\<lambda>n u. Response (plain_response 404 ''Not Found'' [])))
                   ''http://x/a.jpg'' ''/tmp/w/a.jpg'' 60 empty_world = ((False, Some msg), w')
          \<and> sublist ''404'' msg \<and> files w' = files empty_world)"
proof -
  have h1: "makedirs_error (plain_env (\<lambda>n u. Response (plain_response 404 ''Not Found'' []))) (dirname ''/tmp/w/a.jpg'') = None"
    by (simp add: plain_env_def)
  have h2: "net (plain_env (\<lambda>n u. Response (plain_response 404 ''Not Found'' []))) (length (requests empty_world)) ''http://x/a.jpg''
       = Response (plain_response 404 ''Not Found'' [])"
    by (simp add: plain_env_def)
  have h3: "status (plain_response 404 ''Not Found'' []) < 200 \<or> 300 \<le> status (plain_response 404 ''Not Found'' [])"
    by (simp add: plain_response_def)
  have s: "str_int (status (plain_response 404 ''Not Found'' [])) = ''404''"
    unfolding plain_response_def by code_simp
  show ?thesis
    using download_file_non_2xx [OF h1 h2 h3, of 60] h1 h2 h3 unfolding s by blast
qed

subsection \<open>Which URL a download takes\<close>






subsection \<open>Entries of a listing that do not parse\<close>

lemma attr_get_dict [simp]: "attr_get (PDict d) k = Inr (dict_get d k)"
  by (simp add: attr_get_def attr_get_default_def dict_get_def)

lemma sub_get_isl:
  "isl (sub_get (PDict d) k1 k2) = (case map_of d k1 of Some v \<Rightarrow> \<not> is_dict v | None \<Rightarrow> False)"
  by (cases "map_of d k1"; cases "the (map_of d k1)")
     (auto simp: sub_get_def bind_exn_def attr_get_default_def attr_get_def dict_get_default_def
        dict_get_def)

lemma isl_bind_exn: "isl (bind_exn m f) = (isl m \<or> isl (f (projr m)))"
  by (cases m) (auto simp: bind_exn_def)

lemma unsplash_parse_item_malformed:
  "isl (unsplash_parse_item E q orientation item) = unsplash_malformed item"
proof (cases item)
  case (PDict d)
  show ?thesis
    unfolding PDict unsplash_parse_item_def unsplash_malformed_def
    by (auto simp: isl_bind_exn sub_get_isl split: option.splits)
qed (simp_all add: unsplash_parse_item_def unsplash_malformed_def bind_exn_def attr_get_def
       attr_get_default_def)

lemma warnings_logger [simp]:
  "warnings (logger lv m w) = (if lv = WARNING then warnings w @ [m] else warnings w)"
  by (simp add: warnings_def logger_def)

lemma parse_loop_eq:
  "parse_loop parse items acc w =
     (acc @ candidates_of parse items,
      w\<lparr>logs := logs w @ map (\<lambda>e. (WARNING, ''Error parsing wallpaper item: '' @ exn_str e))
                           (parse_errors parse items)\<rparr>)"
proof (induction items arbitrary: acc w)
  case Nil
  then show ?case by (simp add: candidates_of_def parse_errors_def map_filter_simps)
next
  case (Cons item items)
  then show ?case
    by (cases "parse item")
       (auto simp: candidates_of_def parse_errors_def map_filter_simps logger_def
          split: sum.splits)
qed

lemma candidates_errors_length:
  "length (candidates_of parse items) + length (parse_errors parse items)
     = length (filter (\<lambda>item. parse item \<noteq> None) items)"
  by (induction items)
     (auto simp: candidates_of_def parse_errors_def map_filter_simps split: option.splits sum.splits)

lemma candidates_length_total:
  "length (candidates_of (\<lambda>item. Some (f item)) items) = length (filter (\<lambda>item. \<not> isl (f item)) items)"
  by (induction items)
     (auto simp: candidates_of_def map_filter_simps split: sum.splits)

lemma errors_length_total:
  "length (parse_errors (\<lambda>item. Some (f item)) items) = length (filter (\<lambda>item. isl (f item)) items)"
  by (induction items)
     (auto simp: parse_errors_def map_filter_simps split: sum.splits)

lemma warnings_clock [simp]: "warnings (w\<lparr>clock := t\<rparr>) = warnings w"
  by (simp add: warnings_def)

lemma warnings_requests [simp]: "warnings (w\<lparr>requests := t\<rparr>) = warnings w"
  by (simp add: warnings_def)

lemma warnings_logs_append:
  "logs w' = logs w @ map (\<lambda>e. (WARNING, f e)) es \<Longrightarrow> length (warnings w') = length (warnings w) + length es"
  by (simp add: warnings_def comp_def)

lemma unsplash_listing:
  assumes "truthy (api_key s)" and "query \<noteq> []"
      and "net E (length (requests w)) (base_url s @ ''/search/photos'') = Response r"
      and "status r = 200"
      and "json_body r = Inr data"
      and "attr_get_default data ''results'' (PList []) = Inr (PList items)"
  shows "\<exists>wps s' w'. unsplash_get_wallpaper_list E query orientation s w = (Returns wps, s', w')
           \<and> wps = candidates_of (\<lambda>item. Some (unsplash_parse_item E query orientation item)) items
           \<and> length wps = length (filter (\<lambda>item. \<not> unsplash_malformed item) items)
           \<and> length (warnings w') = length (warnings w) + length (filter unsplash_malformed items)"
proof -
  obtain t where r: "respect_rate_limit E s w = (s\<lparr>last_request_time := t\<rparr>, w\<lparr>clock := t\<rparr>)"
    using respect_rate_limit_shape by blast
  show ?thesis
    using assms
    by (simp add: unsplash_get_wallpaper_list_def r http_get_def bind_exn_def
          unsplash_results_def py_iter_def parse_loop_eq
          warnings_logs_append [where f = "\<lambda>e. ''Error parsing wallpaper item: '' @ exn_str e"]
          candidates_length_total errors_length_total unsplash_parse_item_malformed)
qed

lemma wallhaven_listing:
  assumes "\<not> truthy (api_key s)"
      and "net E (length (requests w)) (base_url s @ ''/search'') = Response r"
      and "status r = 200"
      and "text_body r = Inr html"
  shows "\<exists>wps s' w'. wallhaven_get_wallpaper_list E query s w = (Returns wps, s', w')
           \<and> wps = candidates_of (wallhaven_parse_figure E (base_url s) query) (figures r)
           \<and> length wps + length (warnings w')
               = length (warnings w)
                 + length (filter (\<lambda>fig. truthy (data_wallpaper_id fig)) (figures r))"
proof -
  obtain t where r: "respect_rate_limit E s w = (s\<lparr>last_request_time := t\<rparr>, w\<lparr>clock := t\<rparr>)"
    using respect_rate_limit_shape by blast
  have n: "(\<lambda>fig. wallhaven_parse_figure E (base_url s) query fig \<noteq> None)
             = (\<lambda>fig. truthy (data_wallpaper_id fig))"
    by (auto simp: wallhaven_parse_figure_def Let_def)
  have c: "length (candidates_of (wallhaven_parse_figure E (base_url s) query) (figures r))
             + length (parse_errors (wallhaven_parse_figure E (base_url s) query) (figures r))
           = length (filter (\<lambda>fig. truthy (data_wallpaper_id fig)) (figures r))"
    using candidates_errors_length [of "wallhaven_parse_figure E (base_url s) query" "figures r"]
    unfolding n .
  show ?thesis
    using assms c
    by (simp add: wallhaven_get_wallpaper_list_def r http_get_def parse_loop_eq
          warnings_logs_append [where f = "\<lambda>e. ''Error parsing wallpaper item: '' @ exn_str e"] n)
qed

text \<open>
  Claim C6, as the code has it. A listing never fails over one entry: the entries that
  parse become the candidates, in order, and each entry whose parsing raises costs one
  warning. In an Unsplash search answer the entries that raise are those that are no JSON
  object or whose \<open>urls\<close>, \<open>links\<close> or \<open>user\<close> is no JSON object. On Wallhaven's search page
  every \<open>figure\<close> with an identifier gives a candidate or a warning; a \<open>figure\<close> without
  one is passed over and leaves no warning.
\<close>

theorem listing_skips_unparsable_entries:
  "(truthy (api_key s) \<and> query \<noteq> []
      \<and> net E (length (requests w)) (base_url s @ ''/search/photos'') = Response r
      \<and> status r = 200 \<and> json_body r = Inr data
      \<and> attr_get_default data ''results'' (PList []) = Inr (PList items)
    \<longrightarrow> (\<exists>wps s' w'.
           unsplash_get_wallpaper_list E query orientation s w = (Returns wps, s', w')
           \<and> wps = candidates_of (\<lambda>item. Some (unsplash_parse_item E query orientation item)) items
           \<and> length wps = length (filter (\<lambda>item. \<not> unsplash_malformed item) items)
           \<and> length (warnings w') = length (warnings w) + length (filter unsplash_malformed items)))
   \<and> (\<not> truthy (api_key hs)
      \<and> net E (length (requests w)) (base_url hs @ ''/search'') = Response hr
      \<and> status hr = 200 \<and> text_body hr = Inr html
    \<longrightarrow> (\<exists>wps s' w'.
           wallhaven_get_wallpaper_list E query hs w = (Returns wps, s', w')
           \<and> wps = candidates_of (wallhaven_parse_figure E (base_url hs) query) (figures hr)
           \<and> length wps + length (warnings w')
               = length (warnings w)
                 + length (filter (\<lambda>fig. truthy (data_wallpaper_id fig)) (figures hr))))"
  using unsplash_listing [of s query E w r data items orientation]
        wallhaven_listing [of hs E w hr html query]
  by blast

theorem listing_skips_unparsable_entries_witness:
  "truthy (api_key sample_scraper) \<and> ''sky'' \<noteq> []
   \<and> (\<exists>r data. net (plain_env search_server) (length (requests empty_world))
                    (base_url sample_scraper @ ''/search/photos'') = Response r
         \<and> status r = 200 \<and> json_body r = Inr data
         \<and> attr_get_default data ''results'' (PList []) = Inr (PList unsplash_page))
   \<and> length unsplash_page = 6 \<and> length (filter unsplash_malformed unsplash_page) = 1
   \<and> (\<exists>wps s' w'. unsplash_get_wallpaper_list (plain_env search_server) ''sky'' ''landscape''
                     sample_scraper empty_world = (Returns wps, s', w')
         \<and> length wps = 5 \<and> length (warnings w') = 1)
   \<and> \<not> truthy (api_key wallhaven_scraper)
   \<and> (\<exists>hr html. net page_env (length (requests empty_world))
                     (base_url wallhaven_scraper @ ''/search'') = Response hr
         \<and> status hr = 200 \<and> text_body hr = Inr html \<and> figures hr = wallhaven_page)
   \<and> (\<exists>wps s' w'. wallhaven_get_wallpaper_list page_env ''sky'' wallhaven_scraper empty_world
                     = (Returns wps, s', w')
         \<and> length wps + length (warnings w') = 5)"
proof -
  let ?r = "(plain_response 200 ''OK'' [])
              \<lparr>json_body := Inr (PDict [(''total'', PInt 6), (''results'', PList unsplash_page)])\<rparr>"
  let ?data = "PDict [(''total'', PInt 6), (''results'', PList unsplash_page)]"
  let ?hr = "(plain_response 200 ''OK'' [])\<lparr>figures := wallhaven_page\<rparr>"
  have u1: "truthy (api_key sample_scraper)" by (simp add: sample_scraper_def)
  have u2: "net (plain_env search_server) (length (requests empty_world))
              (base_url sample_scraper @ ''/search/photos'') = Response ?r"
    by (simp add: plain_env_def search_server_def)
  have u3: "status ?r = 200" "json_body ?r = Inr ?data"
    by (simp_all add: plain_response_def)
  have u4: "attr_get_default ?data ''results'' (PList []) = Inr (PList unsplash_page)"
    by (simp add: attr_get_default_def dict_get_default_def)
  have u5: "length unsplash_page = 6" by (simp add: unsplash_page_def)
  have u6: "length (filter unsplash_malformed unsplash_page) = 1" by code_simp
  have u7: "length (filter (\<lambda>item. \<not> unsplash_malformed item) unsplash_page) = 5" by code_simp
  have u8: "warnings empty_world = []" by (simp add: warnings_def empty_world_def)
  have h1: "\<not> truthy (api_key wallhaven_scraper)" by (simp add: wallhaven_scraper_def)
  have h2: "net page_env (length (requests empty_world)) (base_url wallhaven_scraper @ ''/search'')
              = Response ?hr"
    by (simp add: page_env_def plain_env_def page_server_def)
  have h3: "status ?hr = 200" "text_body ?hr = Inr []" "figures ?hr = wallhaven_page"
    by (simp_all add: plain_response_def)
  have h4: "length (filter (\<lambda>fig. truthy (data_wallpaper_id fig)) wallhaven_page) = 5"
    by code_simp
  from listing_skips_unparsable_entries
         [where s = sample_scraper and query = "''sky''" and E = "plain_env search_server"
            and w = empty_world and r = ?r and data = ?data and items = unsplash_page
            and orientation = "''landscape''", THEN conjunct1]
       u1 u2 u3 u4 u6 u7 u8
  have U: "\<exists>wps s' w'. unsplash_get_wallpaper_list (plain_env search_server) ''sky'' ''landscape''
                     sample_scraper empty_world = (Returns wps, s', w')
         \<and> length wps = 5 \<and> length (warnings w') = 1"
    by auto
  from listing_skips_unparsable_entries
         [where hs = wallhaven_scraper and query = "''sky''" and E = page_env
            and w = empty_world and hr = ?hr and html = "[]", THEN conjunct2]
       h1 h2 h3 h4 u8
  have W: "\<exists>wps s' w'. wallhaven_get_wallpaper_list page_env ''sky'' wallhaven_scraper empty_world
                     = (Returns wps, s', w')
         \<and> length wps + length (warnings w') = 5"
    by auto
  from u1 u2 u3 u4 u5 u6 U h1 h2 h3 W show ?thesis by blast
qed

text \<open>
  Claim C6 as stated fails on Wallhaven's search page: of six \<open>figure\<close> elements, one
  without an identifier, five become candidates and no warning is logged.
\<close>

theorem wallhaven_silent_skip_counterexample:
  "length wallhaven_page = 6
   \<and> length (filter (\<lambda>fig. truthy (data_wallpaper_id fig)) wallhaven_page) = 5
   \<and> map_option length
        (returned (fst (wallhaven_get_wallpaper_list page_env ''sky'' wallhaven_scraper
                          empty_world))) = Some 5
   \<and> warnings (snd (snd (wallhaven_get_wallpaper_list page_env ''sky'' wallhaven_scraper
                            empty_world))) = []"
  by code_simp

subsection \<open>Failures inside a batch\<close>







subsection \<open>The rate limiter under concurrent callers\<close>

text \<open>
  Claim C8 (the spacing also holds for concurrent callers). \<open>_respect_rate_limit\<close> reads
  \<open>last_request_time\<close>, sleeps, and writes it only after the sleep, with no lock; tasks
  that call it before any of them wakes all read the same time and wake together. With
  an interval of one second, three downloads started together at time 100 are dispatched
  at 100, 101 and 101: two of them at the same instant.
\<close>

theorem concurrent_callers_dispatch_together:
  "rate_limit sample_scraper = 1
   \<and> map_option callers (limiter_run three_downloads (init_limiter sample_scraper 100 3))
       = Some [Dispatched 100, Dispatched 101, Dispatched 101]"
  by (simp add: three_downloads_def init_limiter_def sample_scraper_def numeral_3_eq_3)

subsection \<open>The limit of a run\<close>

text \<open>
  Claim C9 (a run downloads no more candidates than \<open>--limit\<close>). The loop of \<open>main\<close>
  truncates \<open>all_wallpapers\<close>, which nothing reads afterwards, and downloads through
  \<open>download_all()\<close>, which lists again without the query and downloads that whole
  listing. With a limit of 2, one match for the query and three wallpapers in the default
  listing, three files are downloaded.
\<close>

theorem main_ignores_limit:
  "arg_limit limit_two = PInt 2
   \<and> fst (main_run site_listing site_download limit_two sample_scraper empty_world)
       = Returns (0, [''/w/a.jpg'', ''/w/b.jpg'', ''/w/c.jpg''])"
  by code_simp

subsection \<open>File names\<close>

lemma replace_char_fold_set:
  assumes "CHR ''_'' \<notin> set cs"
  shows "set (fold (\<lambda>char f. replace_char char CHR ''_'' f) cs s) \<inter> set cs = {}"
  using assms
proof (induction cs arbitrary: s rule: rev_induct)
  case Nil
  then show ?case by simp
next
  case (snoc c cs)
  then have "set (fold (\<lambda>char f. replace_char char CHR ''_'' f) cs s) \<inter> set cs = {}"
    by simp
  with snoc.prems show ?case by (auto simp: replace_char_def)
qed

lemma set_strip_chars: "set (strip_chars P s) \<subseteq> set s"
  unfolding strip_chars_def
  by (metis set_rev set_dropWhileD subsetI)

lemma splitext_loop_append: "fst (splitext_loop p i d) @ snd (splitext_loop p i d) = p"
  by (induction p i d rule: splitext_loop.induct) (subst (1 2) splitext_loop.simps, simp)

lemma splitext_append: "fst (splitext p) @ snd (splitext p) = p"
  by (simp add: splitext_def Let_def splitext_loop_append)

lemma set_splitext: "splitext p = (b, e) \<Longrightarrow> set b \<union> set e = set p"
  using splitext_append [of p] by (metis fst_conv snd_conv set_append)

text \<open>The parts of the file-name contract that hold for every input.\<close>

lemma sanitize_filename_nonempty: "sanitize_filename s \<noteq> []"
  using splitext_append
  by (auto simp: sanitize_filename_def Let_def split: prod.splits if_splits)

lemma sanitize_filename_no_invalid: "set (sanitize_filename s) \<inter> set invalid_chars = {}"
proof -
  define f1 where "f1 = fold (\<lambda>char f. replace_char char CHR ''_'' f) invalid_chars s"
  define f2 where "f2 = strip_chars (\<lambda>c. c = CHR ''.'') (py_strip f1)"
  have a: "set f1 \<inter> set invalid_chars = {}"
    unfolding f1_def by (rule replace_char_fold_set) (simp add: invalid_chars_def)
  have b: "set f2 \<subseteq> set f1"
    unfolding f2_def py_strip_def using set_strip_chars by (meson order_trans)
  have w: "set ''wallpaper'' \<inter> set invalid_chars = {}"
    by (simp add: invalid_chars_def)
  have c: "set (sanitize_filename s) \<subseteq> set f2 \<union> set ''wallpaper''"
    unfolding sanitize_filename_def Let_def f2_def [symmetric] f1_def [symmetric]
    by (auto split: prod.splits if_splits dest!: set_splitext in_set_takeD)
  from a b c w show ?thesis by blast
qed

text \<open>
  Claim C10 (file names are non-empty, free of the invalid characters and at most 255
  long). The length bound fails when the extension alone is longer than 255: the slice
  \<open>base[:255-len(ext)]\<close> then has a negative bound and the whole extension is kept. The
  name \<open>a.bbb...b\<close> with 300 letters \<open>b\<close> is returned as a name of 301 characters.
\<close>

theorem sanitize_filename_long_extension:
  "sanitize_filename (''a.'' @ replicate 300 CHR ''b'') = CHR ''.'' # replicate 300 CHR ''b''
   \<and> length (sanitize_filename (''a.'' @ replicate 300 CHR ''b'')) = 301"
  by code_simp

end
